theory Spec2Isabelle
  imports Complex_Main
begin

section \<open>The room monitor of \<^verbatim>\<open>monitor.py\<close>\<close>

text \<open>
  The script is one module: it sets up a sensor, a display and two buttons, defines seven
  small functions and then runs \<^verbatim>\<open>while True\<close> around one \<^verbatim>\<open>try\<close> block. The model below
  follows it function by function. Module globals are the fields of the record \<open>state\<close>;
  what a tick gets from outside (the sensor, the clock, the buttons, the file system) is
  the record \<open>env\<close>, one value per tick; an exception is the outcome \<open>Raised\<close>, which
  keeps the state as it was when the exception left the \<^verbatim>\<open>try\<close> body.

  Python floats are modelled as real numbers: the rounding of IEEE doubles is not part of
  the model, so \<^verbatim>\<open>0.3\<close> is three tenths and arithmetic is exact.
\<close>

subsection \<open>Formatting numbers and dates\<close>

definition digit_char :: "nat \<Rightarrow> char" where
  "digit_char d = ''0123456789'' ! (d mod 10)"

text \<open>Decimal digits of a natural number, most significant first, no padding.\<close>

fun show_nat :: "nat \<Rightarrow> string" where
  "show_nat n =
     (if n < 10 then [digit_char n] else show_nat (n div 10) @ [digit_char (n mod 10)])"

declare show_nat.simps [simp del]

text \<open>\<^verbatim>\<open>str.zfill\<close>, as the \<^verbatim>\<open>%02d\<close> and \<^verbatim>\<open>%04d\<close> fields of the date formats pad.\<close>

definition zfill :: "nat \<Rightarrow> string \<Rightarrow> string" where
  "zfill w s = replicate (w - length s) (CHR ''0'') @ s"

text \<open>Rounding to the nearest integer, a tie to the even neighbour.\<close>

definition round_half_even :: "real \<Rightarrow> int" where
  "round_half_even x =
     (let f = \<lfloor>x\<rfloor>; d = x - of_int f
      in if d < 1 / 2 then f
         else if 1 / 2 < d then f + 1
         else if even f then f else f + 1)"

text \<open>
  The format specification \<^verbatim>\<open>:.pf\<close> of an f-string: fixed point with \<open>p\<close> digits after
  the point, the sign kept when the value is negative (\<^verbatim>\<open>f"{-0.001:.2f}"\<close> is
  \<^verbatim>\<open>-0.00\<close>).
\<close>

definition format_f :: "nat \<Rightarrow> real \<Rightarrow> string" where
  "format_f p x =
     (let q = nat (round_half_even (\<bar>x\<bar> * 10 ^ p));
          whole = show_nat (q div 10 ^ p);
          frac = zfill p (show_nat (q mod 10 ^ p))
      in (if x < 0 then ''-'' else '''') @ whole @ (if p = 0 then '''' else ''.'' @ frac))"

text \<open>Python's \<^verbatim>\<open>int\<close> of a float truncates towards zero.\<close>

definition py_int :: "real \<Rightarrow> int" where
  "py_int x = (if 0 \<le> x then \<lfloor>x\<rfloor> else \<lceil>x\<rceil>)"

record datetime =
  year :: nat
  month :: nat
  day :: nat
  hour :: nat
  minute :: nat
  second :: nat
  microsecond :: nat

text \<open>
  \<^verbatim>\<open>strftime("%Y-%m-%d %H:%M:%S")\<close>. The C library decides how \<^verbatim>\<open>%Y\<close> prints a year
  below 1000; the model pads it to four digits, as Python's documentation has it, and the
  theorems about the format assume a year of four digits.
\<close>

definition strftime :: "datetime \<Rightarrow> string" where
  "strftime d =
     zfill 4 (show_nat (year d)) @ ''-'' @ zfill 2 (show_nat (month d)) @ ''-'' @
     zfill 2 (show_nat (day d)) @ '' '' @ zfill 2 (show_nat (hour d)) @ '':'' @
     zfill 2 (show_nat (minute d)) @ '':'' @ zfill 2 (show_nat (second d))"

text \<open>
  \<^verbatim>\<open>str(datetime.datetime.now())\<close>, which the f-string of \<^verbatim>\<open>log_change\<close> takes: the ISO
  format with a space as separator, the microseconds left out when they are zero.
\<close>

definition str_datetime :: "datetime \<Rightarrow> string" where
  "str_datetime d =
     strftime d @
     (if microsecond d = 0 then '''' else ''.'' @ zfill 6 (show_nat (microsecond d)))"

subsection \<open>Exceptions, the environment and the state\<close>

datatype exn =
    SensorReadError string
  | OSError string
  | TypeError
  | ZeroDivisionError

fun exn_str :: "exn \<Rightarrow> string" where
  "exn_str (SensorReadError msg) = msg"
| "exn_str (OSError msg) = msg"
| "exn_str TypeError =
     ''unsupported operand type(s) for -: '' @ [CHR 0x27] @ ''float'' @ [CHR 0x27] @
     '' and '' @ [CHR 0x27] @ ''NoneType'' @ [CHR 0x27]"
| "exn_str ZeroDivisionError = ''division by zero''"

text \<open>
  What one tick reads from outside. A field is looked at only if the tick gets to the
  statement that reads it.
  \<^item> \<open>measurements\<close>: \<^verbatim>\<open>sensor.measurements\<close>, a pair (Celsius, percent), or \<open>Inl\<close> the
    message of the exception it raises;
  \<^item> \<open>log_now\<close>, \<open>snapshot_now\<close>: \<^verbatim>\<open>datetime.datetime.now()\<close> in \<^verbatim>\<open>log_change\<close> and in
    \<^verbatim>\<open>save_snapshot\<close>;
  \<^item> \<open>log_error\<close>, \<open>snapshot_error\<close>: \<open>Some\<close> the message when opening or writing the file
    raises, in which case nothing is appended to the file;
  \<^item> \<open>button_A_value\<close>, \<open>button_B_value\<close>: the pin levels; the inputs are pulled up, so
    \<open>False\<close> is a pressed button.
\<close>

record env =
  measurements :: "string + real \<times> real"
  log_now :: datetime
  log_error :: "string option"
  button_A_value :: bool
  button_B_value :: bool
  snapshot_now :: datetime
  snapshot_error :: "string option"

text \<open>The shapes put on the canvas by \<^verbatim>\<open>ImageDraw\<close>: corner coordinates or position, then the fill.\<close>

datatype draw_cmd =
    Rectangle "int \<times> int \<times> int \<times> int" string
  | Text "int \<times> int" string string

datatype button = A | B

text \<open>
  The calls the loop makes on its collaborators, in program order: the sensor, standard
  output, the history deque, the display, the two files, the buttons and the clock.
  \<open>DisplayImage\<close> carries the canvas that \<^verbatim>\<open>display.image(image)\<close> sends to the panel.
\<close>

datatype event =
    SensorRead
  | Print string
  | PrintExc exn
  | HistoryAppend "real \<times> real"
  | DisplayImage "draw_cmd list"
  | LogWrite string
  | SnapshotWrite string
  | ButtonRead button
  | Sleep nat

text \<open>
  The module globals the loop works on. \<open>canvas\<close> is \<^verbatim>\<open>image\<close>, as the list of shapes drawn
  on it since it was created black, oldest first; \<open>log_file\<close> and \<open>snapshot_file\<close> are what
  this run has appended to \<^verbatim>\<open>sensor_log.txt\<close> and \<^verbatim>\<open>snapshots.txt\<close>, one string per
  \<^verbatim>\<open>write\<close>; \<open>width\<close> and \<open>height\<close> are \<^verbatim>\<open>display.width\<close> and \<^verbatim>\<open>display.height\<close>, which
  the display driver decides.
\<close>

record state =
  width :: int
  height :: int
  prev_temp :: "real option"
  prev_humidity :: "real option"
  history :: "(real \<times> real) list"
  frame :: int
  canvas :: "draw_cmd list"
  log_file :: "string list"
  snapshot_file :: "string list"
  trace :: "event list"

datatype outcome = Done state | Raised exn state

fun completed :: "outcome \<Rightarrow> bool" where
  "completed (Done s) = True"
| "completed (Raised x s) = False"

fun final :: "outcome \<Rightarrow> state" where
  "final (Done s) = s"
| "final (Raised x s) = s"

text \<open>Statements in sequence: the first exception ends the block.\<close>

fun steps :: "(state \<Rightarrow> outcome) list \<Rightarrow> state \<Rightarrow> outcome" where
  "steps [] s = Done s"
| "steps (f # fs) s = (case f s of Done s' \<Rightarrow> steps fs s' | Raised x s' \<Rightarrow> Raised x s')"

definition ok :: "(state \<Rightarrow> state) \<Rightarrow> state \<Rightarrow> outcome" where
  "ok f s = Done (f s)"

subsection \<open>Collaborator calls\<close>

definition emit :: "event \<Rightarrow> state \<Rightarrow> state" where
  "emit ev s = s\<lparr>trace := trace s @ [ev]\<rparr>"

definition print_line :: "string \<Rightarrow> state \<Rightarrow> state" where
  "print_line text = emit (Print text)"

definition sleep :: "nat \<Rightarrow> state \<Rightarrow> state" where
  "sleep seconds = emit (Sleep seconds)"

definition draw_rectangle :: "int \<times> int \<times> int \<times> int \<Rightarrow> string \<Rightarrow> state \<Rightarrow> state" where
  "draw_rectangle xy fill s = s\<lparr>canvas := canvas s @ [Rectangle xy fill]\<rparr>"

definition draw_text :: "int \<times> int \<Rightarrow> string \<Rightarrow> string \<Rightarrow> state \<Rightarrow> state" where
  "draw_text xy text fill s = s\<lparr>canvas := canvas s @ [Text xy text fill]\<rparr>"

definition display_image :: "state \<Rightarrow> state" where
  "display_image s = emit (DisplayImage (canvas s)) s"

text \<open>
  \<^verbatim>\<open>collections.deque(maxlen=900).append\<close>: a full deque drops its oldest element to make
  room for the new one.
\<close>

definition maxlen :: nat where
  "maxlen = 900"

definition deque_append :: "'a list \<Rightarrow> 'a \<Rightarrow> 'a list" where
  "deque_append d x = (if length d = maxlen then tl d @ [x] else d @ [x])"

definition history_append :: "real \<times> real \<Rightarrow> state \<Rightarrow> state" where
  "history_append sample s =
     emit (HistoryAppend sample) (s\<lparr>history := deque_append (history s) sample\<rparr>)"

text \<open>Python's \<^verbatim>\<open>/\<close> on a float and a length.\<close>

definition truediv :: "real \<Rightarrow> nat \<Rightarrow> exn + real" where
  "truediv a n = (if n = 0 then Inl ZeroDivisionError else Inr (a / real n))"

subsection \<open>The functions of the module\<close>

definition c_to_f :: "real \<Rightarrow> real" where
  "c_to_f celsius = celsius * 9 / 5 + 32"

text \<open>
  The line both files get, after its time stamp. A Python string is a list of code points;
  the degree sign is the code point \<open>0xB0\<close>, and the line ends with a newline.
\<close>

definition reading_line :: "string \<Rightarrow> real \<Rightarrow> real \<Rightarrow> string" where
  "reading_line stamp temp_f humidity =
     stamp @ '' - Temp: '' @ format_f 2 temp_f @ [CHR 0xB0] @ ''F, Humidity: '' @
     format_f 2 humidity @ ''%'' @ [CHR 0x0A]"

definition log_change :: "env \<Rightarrow> real \<Rightarrow> real \<Rightarrow> state \<Rightarrow> outcome" where
  "log_change e temp_f humidity s =
     (case log_error e of
        Some msg \<Rightarrow> Raised (OSError msg) s
      | None \<Rightarrow>
          (let line = reading_line (str_datetime (log_now e)) temp_f humidity
           in Done (emit (LogWrite line) (s\<lparr>log_file := log_file s @ [line]\<rparr>))))"

definition save_snapshot :: "env \<Rightarrow> real \<Rightarrow> real \<Rightarrow> state \<Rightarrow> outcome" where
  "save_snapshot e temp_f humidity s =
     (let timestamp = strftime (snapshot_now e)
      in case snapshot_error e of
           Some msg \<Rightarrow> Raised (OSError msg) s
         | None \<Rightarrow>
             (let line = reading_line timestamp temp_f humidity;
                  s1 = emit (SnapshotWrite line) (s\<lparr>snapshot_file := snapshot_file s @ [line]\<rparr>);
                  s2 = draw_rectangle (0, 0, width s1, height s1) ''black'' s1;
                  s3 = draw_text (30, 80) ''Snapshot Saved!'' ''yellow'' s2;
                  s4 = draw_text (30, 120) timestamp ''white'' s3;
                  s5 = display_image s4
              in Done (sleep 2 s5)))"

definition draw_running_indicator :: "int \<Rightarrow> state \<Rightarrow> state" where
  "draw_running_indicator frm s =
     (let bar_width = 50;
          bar_x = width s - bar_width - 10;
          bar_y = height s - 10;
          progress = frm mod bar_width
      in draw_rectangle (bar_x, bar_y - 5, bar_x + progress, bar_y) ''green'' s)"

definition draw_graphical_display :: "real \<Rightarrow> real \<Rightarrow> int \<Rightarrow> state \<Rightarrow> state" where
  "draw_graphical_display temp_f humidity frm s =
     (let s1 = draw_rectangle (0, 0, width s, height s) ''black'' s;
          s2 = draw_text (20, 20) (''Temp: '' @ format_f 1 temp_f @ [CHR 0xB0] @ ''F'') ''white'' s1;
          s3 = draw_text (20, 50) (''Humidity: '' @ format_f 1 humidity @ ''%'') ''white'' s2;
          temp_bar_height = py_int ((temp_f / 122.0) * 150);
          s4 = draw_rectangle (180, 200 - temp_bar_height, 210, 200) ''red'' s3;
          hum_bar_height = py_int ((humidity / 100.0) * 150);
          s5 = draw_rectangle (220, 200 - hum_bar_height, 250, 200) ''blue'' s4;
          s6 = draw_running_indicator frm s5
      in display_image s6)"

definition draw_average_display :: "state \<Rightarrow> outcome" where
  "draw_average_display s =
     (if length (history s) = 0 then Done s
      else
        case truediv (sum_list (map fst (history s))) (length (history s)) of
          Inl x \<Rightarrow> Raised x s
        | Inr avg_temp_c \<Rightarrow>
            (let avg_temp_f = c_to_f avg_temp_c
             in case truediv (sum_list (map snd (history s))) (length (history s)) of
                  Inl x \<Rightarrow> Raised x s
                | Inr avg_humidity \<Rightarrow>
                    (let s1 = draw_rectangle (0, 0, width s, height s) ''black'' s;
                         s2 = draw_text (40, 50) ''15 Min Avg:'' ''yellow'' s1;
                         s3 = draw_text (40, 100)
                                (''Temp: '' @ format_f 1 avg_temp_f @ [CHR 0xB0] @ ''F'') ''white'' s2;
                         s4 = draw_text (40, 150)
                                (''Humidity: '' @ format_f 1 avg_humidity @ ''%'') ''white'' s3;
                         s5 = display_image s4
                     in Done (sleep 3 s5))))"

subsection \<open>The main loop\<close>

text \<open>
  Lines 157 to 159: the test reads \<^verbatim>\<open>prev_temp\<close> first and \<^verbatim>\<open>prev_humidity\<close> only when the
  temperature has not moved enough; subtracting \<^verbatim>\<open>None\<close> from a float is a \<^verbatim>\<open>TypeError\<close>.
  The pair is assigned after \<^verbatim>\<open>log_change\<close> has returned.
\<close>

definition log_and_update :: "env \<Rightarrow> real \<Rightarrow> real \<Rightarrow> state \<Rightarrow> outcome" where
  "log_and_update e temperature_f humidity s =
     (case log_change e temperature_f humidity s of
        Done s' \<Rightarrow> Done (s'\<lparr>prev_temp := Some temperature_f, prev_humidity := Some humidity\<rparr>)
      | Raised x s' \<Rightarrow> Raised x s')"

definition log_check :: "env \<Rightarrow> real \<Rightarrow> real \<Rightarrow> state \<Rightarrow> outcome" where
  "log_check e temperature_f humidity s =
     (case prev_temp s of
        None \<Rightarrow> log_and_update e temperature_f humidity s
      | Some pt \<Rightarrow>
          if \<bar>temperature_f - pt\<bar> > 0.3 then log_and_update e temperature_f humidity s
          else
            (case prev_humidity s of
               None \<Rightarrow> Raised TypeError s
             | Some ph \<Rightarrow>
                 if \<bar>humidity - ph\<bar> > 0.3 then log_and_update e temperature_f humidity s
                 else Done s))"

definition button_A_check :: "env \<Rightarrow> state \<Rightarrow> outcome" where
  "button_A_check e s =
     (let s1 = emit (ButtonRead A) s
      in if \<not> button_A_value e
         then draw_average_display (print_line ''Button A Pressed - Showing 15-Min Average'' s1)
         else Done s1)"

definition button_B_check :: "env \<Rightarrow> real \<Rightarrow> real \<Rightarrow> state \<Rightarrow> outcome" where
  "button_B_check e temperature_f humidity s =
     (let s1 = emit (ButtonRead B) s
      in if \<not> button_B_value e
         then save_snapshot e temperature_f humidity
                (print_line ''Button B Pressed - Saving Snapshot'' s1)
         else Done s1)"

text \<open>The body of the \<^verbatim>\<open>try\<close> block, lines 143 to 170.\<close>

definition tick_body :: "env \<Rightarrow> state \<Rightarrow> outcome" where
  "tick_body e s =
     (let s1 = emit SensorRead s
      in case measurements e of
           Inl msg \<Rightarrow> Raised (SensorReadError msg) s1
         | Inr (temperature_c, humidity) \<Rightarrow>
             (let temperature_f = c_to_f temperature_c
              in steps
                   [ok (print_line (''Temp: '' @ format_f 2 temperature_f @ [CHR 0xB0] @
                          ''F, Humidity: '' @ format_f 2 humidity @ ''%'')),
                    ok (history_append (temperature_c, humidity)),
                    ok (\<lambda>s. draw_graphical_display temperature_f humidity (frame s) s),
                    ok (\<lambda>s. s\<lparr>frame := frame s + 2\<rparr>),
                    log_check e temperature_f humidity,
                    button_A_check e,
                    button_B_check e temperature_f humidity,
                    ok (sleep 1)] s1))"

text \<open>
  The state in which a tick that has read the sample \<open>(temperature_c, humidity)\<close> gets to the
  test of line 157: the statements of lines 144 to 154 have run.
\<close>

definition before_log_check :: "real \<Rightarrow> real \<Rightarrow> state \<Rightarrow> state" where
  "before_log_check temperature_c humidity s =
     (let temperature_f = c_to_f temperature_c;
          s1 = emit SensorRead s;
          s2 = print_line (''Temp: '' @ format_f 2 temperature_f @ [CHR 0xB0] @
                 ''F, Humidity: '' @ format_f 2 humidity @ ''%'') s1;
          s3 = history_append (temperature_c, humidity) s2;
          s4 = draw_graphical_display temperature_f humidity (frame s3) s3
      in s4\<lparr>frame := frame s4 + 2\<rparr>)"

text \<open>The handler of line 172 catches every \<^verbatim>\<open>Exception\<close> of the body.\<close>

definition handler :: "exn \<Rightarrow> state \<Rightarrow> state" where
  "handler x s = sleep 2 (emit (PrintExc x) (print_line (''Error reading sensor: '' @ exn_str x) s))"

definition tick :: "env \<Rightarrow> state \<Rightarrow> state" where
  "tick e s = (case tick_body e s of Done s' \<Rightarrow> s' | Raised x s' \<Rightarrow> handler x s')"

text \<open>
  \<^verbatim>\<open>while True\<close> does not end by itself. The model runs it over the environments of
  finitely many ticks, a prefix of the run; the keyboard interrupt that ends the process
  is outside the model.
\<close>

fun main_loop :: "env list \<Rightarrow> state \<Rightarrow> state" where
  "main_loop [] s = s"
| "main_loop (e # es) s = main_loop es (tick e s)"

text \<open>The state when the loop is entered, for a display of \<open>w\<close> by \<open>h\<close> pixels.\<close>

definition init_state :: "int \<Rightarrow> int \<Rightarrow> state" where
  "init_state w h =
     \<lparr>width = w, height = h, prev_temp = None, prev_humidity = None, history = [],
      frame = 0, canvas = [], log_file = [], snapshot_file = [],
      trace = [Print ''Starting sensor monitoring...'']\<rparr>"

subsection \<open>The specification's notions\<close>

text \<open>
  The definitions of this subsection follow the words of the specification, not the code;
  the theorems compare the code with them.
\<close>

text \<open>The last-logged reading: the pair (temperature in Fahrenheit, humidity), or none.\<close>

definition last_logged :: "state \<Rightarrow> (real \<times> real) option" where
  "last_logged s =
     (case prev_temp s of
        None \<Rightarrow> None
      | Some t \<Rightarrow> (case prev_humidity s of None \<Rightarrow> None | Some h \<Rightarrow> Some (t, h)))"

text \<open>
  "If no prior value exists, or \<open>|\<Delta>temp| > 0.3\<close> or \<open>|\<Delta>humidity| > 0.3\<close>, append a line."
\<close>

definition spec_should_log :: "(real \<times> real) option \<Rightarrow> real \<Rightarrow> real \<Rightarrow> bool" where
  "spec_should_log logged temp_f humidity =
     (case logged of
        None \<Rightarrow> True
      | Some (pt, ph) \<Rightarrow> \<bar>temp_f - pt\<bar> > 0.3 \<or> \<bar>humidity - ph\<bar> > 0.3)"


text \<open>The samples a run of ticks has read from the sensor, in arrival order.\<close>

fun samples :: "env list \<Rightarrow> (real \<times> real) list" where
  "samples [] = []"
| "samples (e # es) =
     (case measurements e of Inl msg \<Rightarrow> samples es | Inr sample \<Rightarrow> sample # samples es)"







subsection \<open>Sample inputs\<close>

definition noon :: datetime where
  "noon = \<lparr>year = 2024, month = 6, day = 1, hour = 12, minute = 0, second = 7, microsecond = 0\<rparr>"

text \<open>A tick that reads the given sample, with no button pressed and no file error.\<close>

definition reading :: "real \<Rightarrow> real \<Rightarrow> env" where
  "reading temperature_c humidity =
     \<lparr>measurements = Inr (temperature_c, humidity), log_now = noon, log_error = None,
      button_A_value = True, button_B_value = True, snapshot_now = noon,
      snapshot_error = None\<rparr>"

text \<open>A tick on which the sensor read raises.\<close>

definition sensor_failure :: env where
  "sensor_failure = (reading 0 0)\<lparr>measurements := Inl ''CRC mismatch''\<rparr>"

section \<open>Properties\<close>

lemmas io_defs = emit_def print_line_def sleep_def draw_rectangle_def draw_text_def
  display_image_def history_append_def

lemma completed_Done: "completed r \<Longrightarrow> r = Done (final r)"
  by (cases r) simp_all

subsection \<open>Digits, numbers with two decimals and time stamps\<close>

























lemmas format_defs = format_f_def round_half_even_def show_nat.simps zfill_def digit_char_def
  strftime_def str_datetime_def reading_line_def c_to_f_def noon_def


subsection \<open>The history buffer\<close>

lemma deque_append_drop:
  "length d \<le> maxlen \<Longrightarrow> deque_append d x = drop (length d + 1 - maxlen) (d @ [x])"
  by (cases d) (auto simp: deque_append_def maxlen_def)

lemma length_deque_append:
  "length d \<le> maxlen \<Longrightarrow> length (deque_append d x) = min (length d + 1) maxlen"
  by (cases d) (auto simp: deque_append_def maxlen_def)

lemma foldl_deque_append:
  "length d \<le> maxlen \<Longrightarrow>
   foldl deque_append d xs = drop (length d + length xs - maxlen) (d @ xs)"
proof (induction xs arbitrary: d)
  case Nil
  then show ?case by simp
next
  case (Cons x xs)
  let ?k = "length d + 1 - maxlen"
  have len: "length (deque_append d x) \<le> maxlen"
    using Cons.prems by (simp add: length_deque_append)
  have "foldl deque_append (deque_append d x) xs =
        drop (length (deque_append d x) + length xs - maxlen) (deque_append d x @ xs)"
    by (rule Cons.IH [OF len])
  also have "deque_append d x @ xs = drop ?k (d @ x # xs)"
    using Cons.prems by (simp add: deque_append_drop maxlen_def)
  also have "drop (length (deque_append d x) + length xs - maxlen) (drop ?k (d @ x # xs)) =
             drop (length d + length (x # xs) - maxlen) (d @ x # xs)"
  proof -
    have "length (deque_append d x) + length xs - maxlen + ?k =
          length d + length (x # xs) - maxlen"
      using Cons.prems by (simp add: length_deque_append min_def) arith
    then show ?thesis by (simp only: drop_drop)
  qed
  finally show ?case by simp
qed

lemma deque_append_not_Nil: "deque_append d x \<noteq> []"
  by (simp add: deque_append_def)

subsection \<open>The average display\<close>

text \<open>
  Claim C5. On an empty history \<^verbatim>\<open>draw_average_display\<close> returns at once: it raises nothing
  and leaves the whole state as it was, so nothing is drawn on the canvas, nothing is sent
  to the display and the loop does not sleep.
\<close>

theorem average_noop_on_empty:
  "history s = [] \<Longrightarrow> draw_average_display s = Done s"
  by (simp add: draw_average_display_def)

theorem average_noop_on_empty_witness:
  "history (init_state 240 240) = [] \<and>
   draw_average_display (init_state 240 240) = Done (init_state 240 240)"
  using average_noop_on_empty [of "init_state 240 240"] by (simp add: init_state_def)




subsection \<open>The default view\<close>


lemma canvas_draw_graphical_display:
  "canvas (draw_graphical_display temp_f humidity frm s) =
     canvas s @
     [Rectangle (0, 0, width s, height s) ''black'',
      Text (20, 20) (''Temp: '' @ format_f 1 temp_f @ [CHR 0xB0] @ ''F'') ''white'',
      Text (20, 50) (''Humidity: '' @ format_f 1 humidity @ ''%'') ''white'',
      Rectangle (180, 200 - py_int ((temp_f / 122) * 150), 210, 200) ''red'',
      Rectangle (220, 200 - py_int ((humidity / 100) * 150), 250, 200) ''blue'',
      Rectangle (width s - 60, height s - 15, width s - 60 + frm mod 50, height s - 10) ''green'']"
  by (simp add: draw_graphical_display_def draw_running_indicator_def io_defs Let_def)

lemma draw_graphical_display_fields:
  "width (draw_graphical_display tf h frm s) = width s"
  "height (draw_graphical_display tf h frm s) = height s"
  "prev_temp (draw_graphical_display tf h frm s) = prev_temp s"
  "prev_humidity (draw_graphical_display tf h frm s) = prev_humidity s"
  "history (draw_graphical_display tf h frm s) = history s"
  "frame (draw_graphical_display tf h frm s) = frame s"
  "log_file (draw_graphical_display tf h frm s) = log_file s"
  "snapshot_file (draw_graphical_display tf h frm s) = snapshot_file s"
  "trace (draw_graphical_display tf h frm s) =
     trace s @ [DisplayImage (canvas (draw_graphical_display tf h frm s))]"
  by (simp_all add: draw_graphical_display_def draw_running_indicator_def io_defs Let_def)


subsection \<open>The steps of a tick\<close>

lemma sleep_fields:
  "width (sleep n s) = width s"
  "height (sleep n s) = height s"
  "prev_temp (sleep n s) = prev_temp s"
  "prev_humidity (sleep n s) = prev_humidity s"
  "history (sleep n s) = history s"
  "frame (sleep n s) = frame s"
  "canvas (sleep n s) = canvas s"
  "log_file (sleep n s) = log_file s"
  "snapshot_file (sleep n s) = snapshot_file s"
  "trace (sleep n s) = trace s @ [Sleep n]"
  by (simp_all add: io_defs)

lemma before_log_check_fields:
  "width (before_log_check tc h s) = width s"
  "height (before_log_check tc h s) = height s"
  "prev_temp (before_log_check tc h s) = prev_temp s"
  "prev_humidity (before_log_check tc h s) = prev_humidity s"
  "history (before_log_check tc h s) = deque_append (history s) (tc, h)"
  "frame (before_log_check tc h s) = frame s + 2"
  "log_file (before_log_check tc h s) = log_file s"
  "snapshot_file (before_log_check tc h s) = snapshot_file s"
  "canvas (before_log_check tc h s) = canvas (draw_graphical_display (c_to_f tc) h (frame s) s)"
  "trace (before_log_check tc h s) =
     trace s @
     [SensorRead,
      Print (''Temp: '' @ format_f 2 (c_to_f tc) @ [CHR 0xB0] @ ''F, Humidity: '' @
             format_f 2 h @ ''%''),
      HistoryAppend (tc, h),
      DisplayImage (canvas (draw_graphical_display (c_to_f tc) h (frame s) s))]"
  by (simp_all add: before_log_check_def Let_def draw_graphical_display_fields
      canvas_draw_graphical_display io_defs)

lemma tick_body_Inr:
  "measurements e = Inr (tc, h) \<Longrightarrow>
   tick_body e s =
     steps [log_check e (c_to_f tc) h, button_A_check e, button_B_check e (c_to_f tc) h,
            ok (sleep 1)] (before_log_check tc h s)"
  by (simp add: tick_body_def before_log_check_def Let_def ok_def)

lemma log_and_update_eq:
  "log_and_update e tf h s =
     (case log_error e of
        Some msg \<Rightarrow> Raised (OSError msg) s
      | None \<Rightarrow>
          Done (s\<lparr>prev_temp := Some tf, prev_humidity := Some h,
                  log_file := log_file s @ [reading_line (str_datetime (log_now e)) tf h],
                  trace := trace s @ [LogWrite (reading_line (str_datetime (log_now e)) tf h)]\<rparr>))"
  by (simp add: log_and_update_def log_change_def io_defs Let_def split: option.splits)

lemma log_check_paired:
  assumes "(prev_temp s = None) = (prev_humidity s = None)"
  shows "log_check e tf h s =
           (if spec_should_log (last_logged s) tf h then log_and_update e tf h s else Done s)"
  using assms
  by (cases "prev_temp s"; cases "prev_humidity s")
     (simp_all add: log_check_def spec_should_log_def last_logged_def)

lemma log_check_final:
  assumes "(prev_temp s = None) = (prev_humidity s = None)"
  shows "final (log_check e tf h s) =
           (if spec_should_log (last_logged s) tf h \<and> log_error e = None
            then s\<lparr>prev_temp := Some tf, prev_humidity := Some h,
                   log_file := log_file s @ [reading_line (str_datetime (log_now e)) tf h],
                   trace := trace s @ [LogWrite (reading_line (str_datetime (log_now e)) tf h)]\<rparr>
            else s)"
    and "completed (log_check e tf h s) =
           (\<not> spec_should_log (last_logged s) tf h \<or> log_error e = None)"
  by (simp_all add: log_check_paired [OF assms] log_and_update_eq split: option.splits)

text \<open>Without the pairing: what the log check never touches.\<close>

lemma log_check_frame:
  "width (final (log_check e tf h s)) = width s"
  "height (final (log_check e tf h s)) = height s"
  "history (final (log_check e tf h s)) = history s"
  "frame (final (log_check e tf h s)) = frame s"
  "canvas (final (log_check e tf h s)) = canvas s"
  "snapshot_file (final (log_check e tf h s)) = snapshot_file s"
  by (simp_all add: log_check_def log_and_update_eq split: option.splits)

lemma log_check_keeps_pairing:
  "(prev_temp s = None) = (prev_humidity s = None) \<Longrightarrow>
   (prev_temp (final (log_check e tf h s)) = None) =
   (prev_humidity (final (log_check e tf h s)) = None)"
  by (simp add: log_check_final)

lemma draw_average_display_Done: "completed (draw_average_display s)"
  by (simp add: draw_average_display_def truediv_def Let_def)

lemma draw_average_display_fields:
  "width (final (draw_average_display s)) = width s"
  "height (final (draw_average_display s)) = height s"
  "prev_temp (final (draw_average_display s)) = prev_temp s"
  "prev_humidity (final (draw_average_display s)) = prev_humidity s"
  "history (final (draw_average_display s)) = history s"
  "frame (final (draw_average_display s)) = frame s"
  "log_file (final (draw_average_display s)) = log_file s"
  "snapshot_file (final (draw_average_display s)) = snapshot_file s"
  "trace (final (draw_average_display s)) =
     (if history s = [] then trace s
      else trace s @ [DisplayImage (canvas (final (draw_average_display s))), Sleep 3])"
  by (simp_all add: draw_average_display_def truediv_def Let_def io_defs)

lemma button_A_check_Done: "completed (button_A_check e s)"
  by (simp add: button_A_check_def Let_def draw_average_display_Done)

lemma button_A_check_fields:
  "width (final (button_A_check e s)) = width s"
  "height (final (button_A_check e s)) = height s"
  "prev_temp (final (button_A_check e s)) = prev_temp s"
  "prev_humidity (final (button_A_check e s)) = prev_humidity s"
  "history (final (button_A_check e s)) = history s"
  "frame (final (button_A_check e s)) = frame s"
  "log_file (final (button_A_check e s)) = log_file s"
  "snapshot_file (final (button_A_check e s)) = snapshot_file s"
  by (simp_all add: button_A_check_def Let_def draw_average_display_fields io_defs)

lemma button_A_check_trace:
  "history s \<noteq> [] \<Longrightarrow>
   trace (final (button_A_check e s)) =
     trace s @ [ButtonRead A] @
     (if \<not> button_A_value e
      then [Print ''Button A Pressed - Showing 15-Min Average'',
            DisplayImage (canvas (final (button_A_check e s))), Sleep 3]
      else [])"
  by (simp add: button_A_check_def Let_def draw_average_display_fields io_defs)

lemma button_B_check_completed:
  "completed (button_B_check e tf h s) = (button_B_value e \<or> snapshot_error e = None)"
  by (simp add: button_B_check_def save_snapshot_def Let_def split: option.splits)

lemma button_B_check_fields:
  "width (final (button_B_check e tf h s)) = width s"
  "height (final (button_B_check e tf h s)) = height s"
  "prev_temp (final (button_B_check e tf h s)) = prev_temp s"
  "prev_humidity (final (button_B_check e tf h s)) = prev_humidity s"
  "history (final (button_B_check e tf h s)) = history s"
  "frame (final (button_B_check e tf h s)) = frame s"
  "log_file (final (button_B_check e tf h s)) = log_file s"
  "snapshot_file (final (button_B_check e tf h s)) =
     (if \<not> button_B_value e \<and> snapshot_error e = None
      then snapshot_file s @ [reading_line (strftime (snapshot_now e)) tf h]
      else snapshot_file s)"
  by (simp_all add: button_B_check_def save_snapshot_def Let_def io_defs split: option.splits)

lemma button_B_check_trace:
  "completed (button_B_check e tf h s) \<Longrightarrow>
   trace (final (button_B_check e tf h s)) =
     trace s @ [ButtonRead B] @
     (if \<not> button_B_value e
      then [Print ''Button B Pressed - Saving Snapshot'',
            SnapshotWrite (reading_line (strftime (snapshot_now e)) tf h),
            DisplayImage (canvas (final (button_B_check e tf h s))), Sleep 2]
      else [])"
  by (cases "button_B_value e"; cases "snapshot_error e")
     (simp_all add: button_B_check_def save_snapshot_def Let_def io_defs)

lemma tick_body_outcome:
  assumes "measurements e = Inr (tc, h)"
  shows "completed (tick_body e s) =
           (completed (log_check e (c_to_f tc) h (before_log_check tc h s)) \<and>
            (button_B_value e \<or> snapshot_error e = None))"
    and "final (tick_body e s) =
           (if \<not> completed (log_check e (c_to_f tc) h (before_log_check tc h s))
            then final (log_check e (c_to_f tc) h (before_log_check tc h s))
            else if \<not> (button_B_value e \<or> snapshot_error e = None)
            then final (button_B_check e (c_to_f tc) h
                   (final (button_A_check e
                      (final (log_check e (c_to_f tc) h (before_log_check tc h s))))))
            else sleep 1 (final (button_B_check e (c_to_f tc) h
                   (final (button_A_check e
                      (final (log_check e (c_to_f tc) h (before_log_check tc h s))))))))"
proof -
  define lc where "lc = log_check e (c_to_f tc) h (before_log_check tc h s)"
  define ba where "ba = button_A_check e (final lc)"
  define bb where "bb = button_B_check e (c_to_f tc) h (final ba)"
  have body: "tick_body e s =
      (case lc of
         Done s1 \<Rightarrow>
           (case button_A_check e s1 of
              Done s2 \<Rightarrow>
                (case button_B_check e (c_to_f tc) h s2 of
                   Done s3 \<Rightarrow> Done (sleep 1 s3)
                 | Raised x s3 \<Rightarrow> Raised x s3)
            | Raised x s2 \<Rightarrow> Raised x s2)
       | Raised x s1 \<Rightarrow> Raised x s1)"
    by (simp add: tick_body_Inr [OF assms] lc_def ok_def split: outcome.splits)
  have ba_done: "ba = Done (final ba)"
    unfolding ba_def by (rule completed_Done [OF button_A_check_Done])
  have bb_completed: "completed bb = (button_B_value e \<or> snapshot_error e = None)"
    unfolding bb_def by (rule button_B_check_completed)
  show "completed (tick_body e s) =
           (completed (log_check e (c_to_f tc) h (before_log_check tc h s)) \<and>
            (button_B_value e \<or> snapshot_error e = None))"
  proof (cases lc)
    case (Done s1)
    then have "final lc = s1" by simp
    with ba_done have a: "button_A_check e s1 = Done (final ba)" by (simp add: ba_def)
    show ?thesis
      using Done a bb_completed
      by (cases bb) (simp_all add: body lc_def [symmetric] bb_def)
  next
    case (Raised x s1)
    then show ?thesis by (simp add: body lc_def [symmetric])
  qed
  show "final (tick_body e s) =
           (if \<not> completed (log_check e (c_to_f tc) h (before_log_check tc h s))
            then final (log_check e (c_to_f tc) h (before_log_check tc h s))
            else if \<not> (button_B_value e \<or> snapshot_error e = None)
            then final (button_B_check e (c_to_f tc) h
                   (final (button_A_check e
                      (final (log_check e (c_to_f tc) h (before_log_check tc h s))))))
            else sleep 1 (final (button_B_check e (c_to_f tc) h
                   (final (button_A_check e
                      (final (log_check e (c_to_f tc) h (before_log_check tc h s))))))))"
  proof (cases lc)
    case (Done s1)
    then have "final lc = s1" by simp
    with ba_done have a: "button_A_check e s1 = Done (final ba)" by (simp add: ba_def)
    show ?thesis
      using Done a bb_completed
      by (cases bb) (simp_all add: body lc_def [symmetric] ba_def [symmetric] bb_def [symmetric])
  next
    case (Raised x s1)
    then show ?thesis by (simp add: body lc_def [symmetric])
  qed
qed

lemma tick_fields:
  "width (tick e s) = width (final (tick_body e s))"
  "height (tick e s) = height (final (tick_body e s))"
  "prev_temp (tick e s) = prev_temp (final (tick_body e s))"
  "prev_humidity (tick e s) = prev_humidity (final (tick_body e s))"
  "history (tick e s) = history (final (tick_body e s))"
  "frame (tick e s) = frame (final (tick_body e s))"
  "canvas (tick e s) = canvas (final (tick_body e s))"
  "log_file (tick e s) = log_file (final (tick_body e s))"
  "snapshot_file (tick e s) = snapshot_file (final (tick_body e s))"
  by (cases "tick_body e s"; simp add: tick_def handler_def io_defs)+

lemma tick_completed: "completed (tick_body e s) \<Longrightarrow> tick e s = final (tick_body e s)"
  by (cases "tick_body e s") (simp_all add: tick_def)

lemmas step_fields = sleep_fields button_B_check_fields button_A_check_fields
  log_check_frame before_log_check_fields

lemma tick_Inr_fields:
  assumes "measurements e = Inr (tc, h)"
  shows "width (tick e s) = width s"
    and "height (tick e s) = height s"
    and "history (tick e s) = deque_append (history s) (tc, h)"
    and "frame (tick e s) = frame s + 2"
    and "prev_temp (tick e s) =
           prev_temp (final (log_check e (c_to_f tc) h (before_log_check tc h s)))"
    and "prev_humidity (tick e s) =
           prev_humidity (final (log_check e (c_to_f tc) h (before_log_check tc h s)))"
    and "log_file (tick e s) =
           log_file (final (log_check e (c_to_f tc) h (before_log_check tc h s)))"
  by (simp_all add: tick_fields tick_body_outcome [OF assms] step_fields)

lemma tick_Inl_eq:
  "measurements e = Inl msg \<Longrightarrow>
   tick e s = s\<lparr>trace := trace s @
      [SensorRead, Print (''Error reading sensor: '' @ msg),
       PrintExc (SensorReadError msg), Sleep 2]\<rparr>"
  by (simp add: tick_def tick_body_def handler_def io_defs)

subsection \<open>The last-logged pair in reachable states\<close>

lemma tick_keeps_pairing:
  assumes "(prev_temp s = None) = (prev_humidity s = None)"
  shows "(prev_temp (tick e s) = None) = (prev_humidity (tick e s) = None)"
proof (cases "measurements e")
  case (Inl msg)
  then show ?thesis using assms by (simp add: tick_Inl_eq)
next
  case (Inr sample)
  obtain tc h where "sample = (tc, h)" by (cases sample)
  with Inr have m: "measurements e = Inr (tc, h)" by simp
  have "(prev_temp (before_log_check tc h s) = None) =
        (prev_humidity (before_log_check tc h s) = None)"
    using assms by (simp add: before_log_check_fields)
  then show ?thesis
    by (simp only: tick_Inr_fields [OF m] log_check_keeps_pairing)
qed

lemma main_loop_pairing:
  "(prev_temp s = None) = (prev_humidity s = None) \<Longrightarrow>
   (prev_temp (main_loop es s) = None) = (prev_humidity (main_loop es s) = None)"
  by (induction es arbitrary: s) (simp_all add: tick_keeps_pairing)

lemma reachable_pairing:
  "(prev_temp (main_loop es (init_state w h)) = None) =
   (prev_humidity (main_loop es (init_state w h)) = None)"
  by (rule main_loop_pairing) (simp add: init_state_def)

lemma last_logged_cong:
  "prev_temp s' = prev_temp s \<Longrightarrow> prev_humidity s' = prev_humidity s \<Longrightarrow>
   last_logged s' = last_logged s"
  by (simp add: last_logged_def cong: option.case_cong)

lemma last_logged_Some:
  "prev_temp s = Some t \<Longrightarrow> prev_humidity s = Some h \<Longrightarrow> last_logged s = Some (t, h)"
  by (simp add: last_logged_def)

lemma last_logged_before_log_check:
  "last_logged (before_log_check tc h s) = last_logged s"
  by (rule last_logged_cong) (simp_all add: before_log_check_fields)

lemma before_log_check_pairing:
  "(prev_temp s = None) = (prev_humidity s = None) \<Longrightarrow>
   (prev_temp (before_log_check tc h s) = None) = (prev_humidity (before_log_check tc h s) = None)"
  by (simp add: before_log_check_fields)

lemma completed_without_errors:
  assumes "measurements e = Inr (tc, h)"
    and "(prev_temp s = None) = (prev_humidity s = None)"
    and "log_error e = None"
    and "button_B_value e \<or> snapshot_error e = None"
  shows "completed (tick_body e s)"
  using assms(3,4)
  by (simp add: tick_body_outcome(1) [OF assms(1)]
      log_check_final(2) [OF before_log_check_pairing [OF assms(2)]])

lemma tick_change_log:
  assumes pair: "(prev_temp s = None) = (prev_humidity s = None)"
    and meas: "measurements e = Inr (tc, h)"
    and fin: "completed (tick_body e s)"
  shows "log_file (tick e s) =
       (if spec_should_log (last_logged s) (c_to_f tc) h
        then log_file s @ [reading_line (str_datetime (log_now e)) (c_to_f tc) h]
        else log_file s)"
    and "prev_temp (tick e s) =
       (if spec_should_log (last_logged s) (c_to_f tc) h then Some (c_to_f tc) else prev_temp s)"
    and "prev_humidity (tick e s) =
       (if spec_should_log (last_logged s) (c_to_f tc) h then Some h else prev_humidity s)"
proof -
  note bpair = before_log_check_pairing [OF pair, of tc h]
  have "completed (log_check e (c_to_f tc) h (before_log_check tc h s))"
    using fin by (simp add: tick_body_outcome(1) [OF meas])
  then have ok: "\<not> spec_should_log (last_logged s) (c_to_f tc) h \<or> log_error e = None"
    by (simp add: log_check_final(2) [OF bpair] last_logged_before_log_check)
  show "log_file (tick e s) =
       (if spec_should_log (last_logged s) (c_to_f tc) h
        then log_file s @ [reading_line (str_datetime (log_now e)) (c_to_f tc) h]
        else log_file s)"
    and "prev_temp (tick e s) =
       (if spec_should_log (last_logged s) (c_to_f tc) h then Some (c_to_f tc) else prev_temp s)"
    and "prev_humidity (tick e s) =
       (if spec_should_log (last_logged s) (c_to_f tc) h then Some h else prev_humidity s)"
    using ok
    by (auto simp: tick_Inr_fields [OF meas] log_check_final(1) [OF bpair]
        last_logged_before_log_check before_log_check_fields)
qed

subsection \<open>Facts about the sample inputs\<close>

lemma reading_fields:
  "measurements (reading tc h) = Inr (tc, h)"
  "log_error (reading tc h) = None"
  "snapshot_error (reading tc h) = None"
  "button_A_value (reading tc h)"
  "button_B_value (reading tc h)"
  "log_now (reading tc h) = noon"
  "snapshot_now (reading tc h) = noon"
  by (simp_all add: reading_def)

lemma init_state_fields:
  "width (init_state w h) = w"
  "height (init_state w h) = h"
  "prev_temp (init_state w h) = None"
  "prev_humidity (init_state w h) = None"
  "history (init_state w h) = []"
  "frame (init_state w h) = 0"
  "canvas (init_state w h) = []"
  "log_file (init_state w h) = []"
  "snapshot_file (init_state w h) = []"
  "last_logged (init_state w h) = None"
  by (simp_all add: init_state_def last_logged_def)

lemma trace_init_state: "trace (init_state w h) = [Print ''Starting sensor monitoring...'']"
  by (simp add: init_state_def)

subsection \<open>The history of a run\<close>

lemma history_tick:
  "history (tick e s) =
     (case measurements e of Inl msg \<Rightarrow> history s | Inr sample \<Rightarrow> deque_append (history s) sample)"
proof (cases "measurements e")
  case (Inl msg)
  then show ?thesis by (simp add: tick_Inl_eq)
next
  case (Inr sample)
  obtain tc h where "sample = (tc, h)" by (cases sample)
  with Inr have m: "measurements e = Inr (tc, h)" by simp
  show ?thesis by (simp add: tick_Inr_fields(3) [OF m] m)
qed

lemma history_main_loop:
  "history (main_loop es s) = foldl deque_append (history s) (samples es)"
  by (induction es arbitrary: s) (simp_all add: history_tick split: sum.splits)

text \<open>
  Claim C4. Whatever the sequence \<open>xs\<close> of samples appended to an empty history, the history
  then holds \<open>min (length xs) 900\<close> samples, and they are the last that many of \<open>xs\<close>, in
  arrival order: the oldest ones are the ones dropped. So after any run of the loop the
  history is the last 900 of the samples the run has read, or all of them when there are
  fewer.
\<close>

theorem history_ring_buffer:
  "length (foldl deque_append [] xs) = min (length xs) 900 \<and>
   foldl deque_append [] xs = drop (length xs - 900) xs \<and>
   history (main_loop es (init_state w ht)) = drop (length (samples es) - 900) (samples es)"
proof -
  have recent: "foldl deque_append [] ys = drop (length ys - 900) ys" for ys :: "'b list"
    using foldl_deque_append [of "[]" ys] by (simp add: maxlen_def)
  have "length (foldl deque_append [] xs) = min (length xs) 900"
    by (simp add: recent)
  moreover have "history (main_loop es (init_state w ht)) =
      drop (length (samples es) - 900) (samples es)"
    by (simp add: history_main_loop init_state_fields recent)
  ultimately show ?thesis
    using recent [of xs] by simp
qed

subsection \<open>A failed sensor read\<close>

text \<open>
  Claim C2. A tick on which \<^verbatim>\<open>sensor.measurements\<close> raises changes nothing but the trace:
  the history, the last-logged pair, the frame counter, the canvas and both files are as
  before. The trace gets the read, the two reports of the handler and a sleep of 2
  seconds, and the loop goes on with the next tick.
\<close>

theorem sensor_failure_skips_tick:
  assumes "measurements e = Inl msg"
  shows "tick e s =
           s\<lparr>trace := trace s @
              [SensorRead, Print (''Error reading sensor: '' @ msg),
               PrintExc (SensorReadError msg), Sleep 2]\<rparr> \<and>
         main_loop (e # es) s = main_loop es (tick e s)"
  using assms by (simp add: tick_def tick_body_def handler_def io_defs)

theorem sensor_failure_skips_tick_witness:
  "measurements sensor_failure = Inl ''CRC mismatch'' \<and>
   tick sensor_failure (init_state 240 240) =
     (init_state 240 240)\<lparr>trace := trace (init_state 240 240) @
        [SensorRead, Print (''Error reading sensor: '' @ ''CRC mismatch''),
         PrintExc (SensorReadError ''CRC mismatch''), Sleep 2]\<rparr> \<and>
   main_loop [sensor_failure, reading 20 50] (init_state 240 240) =
     main_loop [reading 20 50] (tick sensor_failure (init_state 240 240))"
  using sensor_failure_skips_tick
    [of sensor_failure "''CRC mismatch''" "init_state 240 240" "[reading 20 50]"]
  by (simp add: sensor_failure_def reading_def)

subsection \<open>The change log\<close>

text \<open>
  Claim C1. Let \<open>s\<close> be any state the loop can be in, and let a tick read a sample and run
  to its end without an exception. If there is no last-logged pair, or the temperature in
  Fahrenheit or the humidity differs from it by more than 0.3, the tick appends one line
  to the change log and the pair becomes the current reading; otherwise the log and the
  pair are the ones of \<open>s\<close>. The pair lives in the state, so it is carried from tick to
  tick.
\<close>

theorem change_log_iff_threshold:
  assumes reach: "s = main_loop es (init_state w ht)"
    and meas: "measurements e = Inr (tc, h)"
    and fin: "completed (tick_body e s)"
  shows "if spec_should_log (last_logged s) (c_to_f tc) h
         then log_file (tick e s) =
                log_file s @ [reading_line (str_datetime (log_now e)) (c_to_f tc) h] \<and>
              prev_temp (tick e s) = Some (c_to_f tc) \<and> prev_humidity (tick e s) = Some h \<and>
              last_logged (tick e s) = Some (c_to_f tc, h)
         else log_file (tick e s) = log_file s \<and>
              prev_temp (tick e s) = prev_temp s \<and> prev_humidity (tick e s) = prev_humidity s \<and>
              last_logged (tick e s) = last_logged s"
proof -
  have pair: "(prev_temp s = None) = (prev_humidity s = None)"
    unfolding reach by (rule reachable_pairing)
  note fields = tick_change_log [OF pair meas fin]
  show ?thesis
  proof (cases "spec_should_log (last_logged s) (c_to_f tc) h")
    case True
    then show ?thesis by (simp add: fields last_logged_Some)
  next
    case False
    have "last_logged (tick e s) = last_logged s"
      by (rule last_logged_cong) (simp_all add: fields False)
    with False show ?thesis by (simp add: fields)
  qed
qed

theorem change_log_iff_threshold_witness:
  "completed (tick_body (reading 20 50) (main_loop [] (init_state 240 240))) \<and>
   spec_should_log (last_logged (main_loop [] (init_state 240 240))) (c_to_f 20) 50 \<and>
   log_file (main_loop [reading 20 50] (init_state 240 240)) =
     [reading_line (str_datetime noon) (c_to_f 20) 50] \<and>
   last_logged (main_loop [reading 20 50] (init_state 240 240)) = Some (68, 50) \<and>
   completed (tick_body (reading 20.1 50) (main_loop [reading 20 50] (init_state 240 240))) \<and>
   \<not> spec_should_log (last_logged (main_loop [reading 20 50] (init_state 240 240)))
       (c_to_f 20.1) 50 \<and>
   log_file (main_loop [reading 20 50, reading 20.1 50] (init_state 240 240)) =
     [reading_line (str_datetime noon) (c_to_f 20) 50] \<and>
   last_logged (main_loop [reading 20 50, reading 20.1 50] (init_state 240 240)) = Some (68, 50)"
proof -
  let ?s0 = "init_state 240 240"
  let ?s1 = "main_loop [reading 20 50] ?s0"
  have c0: "completed (tick_body (reading 20 50) (main_loop [] ?s0))"
    by (rule completed_without_errors [where tc = 20 and h = 50])
       (simp_all add: reading_fields init_state_fields)
  have first: "spec_should_log (last_logged (main_loop [] ?s0)) (c_to_f 20) 50"
    by (simp add: init_state_fields spec_should_log_def)
  have step1:
    "log_file ?s1 = [reading_line (str_datetime noon) (c_to_f 20) 50]"
    "last_logged ?s1 = Some (68, 50)"
    using change_log_iff_threshold [OF refl reading_fields(1) c0] first
    by (simp_all add: init_state_fields reading_fields c_to_f_def)
  have pair1: "(prev_temp ?s1 = None) = (prev_humidity ?s1 = None)"
    by (rule reachable_pairing)
  have c1: "completed (tick_body (reading 20.1 50) ?s1)"
    by (rule completed_without_errors [OF reading_fields(1) pair1 reading_fields(2)])
       (simp add: reading_fields)
  have second: "\<not> spec_should_log (last_logged ?s1) (c_to_f 20.1) 50"
    by (simp only: step1) (simp add: spec_should_log_def c_to_f_def)
  have step2:
    "log_file (main_loop [reading 20 50, reading 20.1 50] ?s0) =
       [reading_line (str_datetime noon) (c_to_f 20) 50]"
    "last_logged (main_loop [reading 20 50, reading 20.1 50] ?s0) = Some (68, 50)"
    using change_log_iff_threshold [OF refl reading_fields(1) c1] second step1
    by simp_all
  show ?thesis
    by (intro conjI) (rule c0 first step1 c1 second step2)+
qed



subsection \<open>The snapshot log\<close>



subsection \<open>The order of the steps\<close>

text \<open>
  Claim C7. A tick that reads a sample and runs to its end makes its calls in this order:
  the sensor read and its report, the append to the history, the default view sent to
  the display, the line for the change log if one is due, the read of button A and, if it
  is pressed, the average view held for 3 seconds, the read of button B and, if it is
  pressed, the snapshot line and the confirmation view held for 2 seconds, and last the
  sleep of 1 second. The two button checks do not exclude each other.
\<close>

theorem tick_steps_in_order:
  assumes reach: "s = main_loop es (init_state w ht)"
    and meas: "measurements e = Inr (tc, h)"
    and fin: "completed (tick_body e s)"
  shows "\<exists>c1 c2 c3.
           trace (tick e s) =
             trace s @
             [SensorRead,
              Print (''Temp: '' @ format_f 2 (c_to_f tc) @ [CHR 0xB0] @ ''F, Humidity: '' @
                     format_f 2 h @ ''%''),
              HistoryAppend (tc, h),
              DisplayImage c1] @
             (if spec_should_log (last_logged s) (c_to_f tc) h
              then [LogWrite (reading_line (str_datetime (log_now e)) (c_to_f tc) h)]
              else []) @
             [ButtonRead A] @
             (if button_A_value e then []
              else [Print ''Button A Pressed - Showing 15-Min Average'', DisplayImage c2,
                    Sleep 3]) @
             [ButtonRead B] @
             (if button_B_value e then []
              else [Print ''Button B Pressed - Saving Snapshot'',
                    SnapshotWrite (reading_line (strftime (snapshot_now e)) (c_to_f tc) h),
                    DisplayImage c3, Sleep 2]) @
             [Sleep 1]"
proof -
  define lc where "lc = final (log_check e (c_to_f tc) h (before_log_check tc h s))"
  define ba where "ba = final (button_A_check e lc)"
  define bb where "bb = final (button_B_check e (c_to_f tc) h ba)"
  have pair: "(prev_temp s = None) = (prev_humidity s = None)"
    unfolding reach by (rule reachable_pairing)
  note bpair = before_log_check_pairing [OF pair, of tc h]
  from fin have c: "completed (log_check e (c_to_f tc) h (before_log_check tc h s))"
    "button_B_value e \<or> snapshot_error e = None"
    by (simp_all add: tick_body_outcome(1) [OF meas])
  from c(1) have ok: "\<not> spec_should_log (last_logged s) (c_to_f tc) h \<or> log_error e = None"
    by (simp add: log_check_final(2) [OF bpair] last_logged_before_log_check)
  have t0: "tick e s = sleep 1 bb"
    using c by (simp add: tick_completed [OF fin] tick_body_outcome(2) [OF meas]
        lc_def ba_def bb_def)
  have t_lc: "trace lc =
      trace (before_log_check tc h s) @
      (if spec_should_log (last_logged s) (c_to_f tc) h
       then [LogWrite (reading_line (str_datetime (log_now e)) (c_to_f tc) h)] else [])"
    using ok by (auto simp: lc_def log_check_final(1) [OF bpair] last_logged_before_log_check)
  have "history lc \<noteq> []"
    by (simp add: lc_def log_check_frame before_log_check_fields deque_append_not_Nil)
  then have t_ba: "trace ba =
      trace lc @ [ButtonRead A] @
      (if button_A_value e then []
       else [Print ''Button A Pressed - Showing 15-Min Average'', DisplayImage (canvas ba),
             Sleep 3])"
    by (simp add: ba_def button_A_check_trace)
  have "completed (button_B_check e (c_to_f tc) h ba)"
    using c(2) by (simp add: button_B_check_completed)
  then have t_bb: "trace bb =
      trace ba @ [ButtonRead B] @
      (if button_B_value e then []
       else [Print ''Button B Pressed - Saving Snapshot'',
             SnapshotWrite (reading_line (strftime (snapshot_now e)) (c_to_f tc) h),
             DisplayImage (canvas bb), Sleep 2])"
    by (simp add: bb_def button_B_check_trace)
  have "trace (tick e s) =
             trace s @
             [SensorRead,
              Print (''Temp: '' @ format_f 2 (c_to_f tc) @ [CHR 0xB0] @ ''F, Humidity: '' @
                     format_f 2 h @ ''%''),
              HistoryAppend (tc, h),
              DisplayImage (canvas (draw_graphical_display (c_to_f tc) h (frame s) s))] @
             (if spec_should_log (last_logged s) (c_to_f tc) h
              then [LogWrite (reading_line (str_datetime (log_now e)) (c_to_f tc) h)]
              else []) @
             [ButtonRead A] @
             (if button_A_value e then []
              else [Print ''Button A Pressed - Showing 15-Min Average'',
                    DisplayImage (canvas ba), Sleep 3]) @
             [ButtonRead B] @
             (if button_B_value e then []
              else [Print ''Button B Pressed - Saving Snapshot'',
                    SnapshotWrite (reading_line (strftime (snapshot_now e)) (c_to_f tc) h),
                    DisplayImage (canvas bb), Sleep 2]) @
             [Sleep 1]"
    by (simp only: t0 sleep_fields t_bb t_ba t_lc before_log_check_fields append_assoc)
  then show ?thesis by blast
qed

theorem tick_steps_in_order_witness:
  "completed (tick_body ((reading 20 50)\<lparr>button_A_value := False, button_B_value := False\<rparr>)
     (main_loop [] (init_state 240 240))) \<and>
   (\<exists>c1 c2 c3.
      trace (tick ((reading 20 50)\<lparr>button_A_value := False, button_B_value := False\<rparr>)
        (init_state 240 240)) =
        [Print ''Starting sensor monitoring...'',
         SensorRead,
         Print (''Temp: 68.00'' @ [CHR 0xB0] @ ''F, Humidity: 50.00%''),
         HistoryAppend (20, 50),
         DisplayImage c1,
         LogWrite (reading_line (str_datetime noon) (c_to_f 20) 50),
         ButtonRead A,
         Print ''Button A Pressed - Showing 15-Min Average'',
         DisplayImage c2,
         Sleep 3,
         ButtonRead B,
         Print ''Button B Pressed - Saving Snapshot'',
         SnapshotWrite (reading_line (strftime noon) (c_to_f 20) 50),
         DisplayImage c3,
         Sleep 2,
         Sleep 1])"
proof -
  let ?s0 = "init_state 240 240"
  let ?e = "(reading 20 50)\<lparr>button_A_value := False, button_B_value := False\<rparr>"
  have e: "measurements ?e = Inr (20, 50)" "log_error ?e = None"
    "snapshot_error ?e = None" "\<not> button_B_value ?e" "\<not> button_A_value ?e"
    "snapshot_now ?e = noon" "log_now ?e = noon"
    by (simp_all add: reading_def)
  have p0: "(prev_temp (main_loop [] ?s0) = None) = (prev_humidity (main_loop [] ?s0) = None)"
    by (rule reachable_pairing)
  have c: "completed (tick_body ?e (main_loop [] ?s0))"
    by (rule completed_without_errors [OF e(1) p0 e(2)]) (simp add: e)
  have f: "format_f 2 (c_to_f 20) = ''68.00''" "format_f 2 50 = ''50.00''"
    by (simp_all add: format_defs)
  from tick_steps_in_order [OF refl e(1) c]
  obtain c1 c2 c3 where
    "trace (tick ?e (main_loop [] ?s0)) =
        [Print ''Starting sensor monitoring...'',
         SensorRead,
         Print (''Temp: 68.00'' @ [CHR 0xB0] @ ''F, Humidity: 50.00%''),
         HistoryAppend (20, 50),
         DisplayImage c1,
         LogWrite (reading_line (str_datetime noon) (c_to_f 20) 50),
         ButtonRead A,
         Print ''Button A Pressed - Showing 15-Min Average'',
         DisplayImage c2,
         Sleep 3,
         ButtonRead B,
         Print ''Button B Pressed - Saving Snapshot'',
         SnapshotWrite (reading_line (strftime noon) (c_to_f 20) 50),
         DisplayImage c3,
         Sleep 2,
         Sleep 1]"
    by (auto simp: e f init_state_fields spec_should_log_def trace_init_state)
  with c show ?thesis by auto
qed

subsection \<open>The running indicator and the frame counter\<close>





end
